theory Spec2Isabelle
  imports Complex_Main
begin

section \<open>C++ values shared by both classes\<close>

text \<open>
  The exceptions the two classes raise, with the text \<open>what()\<close> returns. A call of a
  C++ function ends in one of three ways: it returns a value, it lets an exception
  escape to its caller, or its behaviour is undefined. \<open>Undefined\<close> stands for the two
  undefined behaviours that occur in the sources: control reaching the closing brace of
  a function with a non-void return type without a \<open>return\<close>, and a read through a
  null pointer or outside an array.
\<close>

datatype cpp_exception =
    runtime_error string
  | out_of_range string
  | invalid_argument string

fun what :: "cpp_exception \<Rightarrow> string" where
  "what (runtime_error m) = m"
| "what (out_of_range m) = m"
| "what (invalid_argument m) = m"

datatype 'a outcome = Returns 'a | Throws cpp_exception | Undefined

text \<open>\<open>std::to_string\<close> on an unsigned value: its decimal digits.\<close>

definition digit_char :: "nat \<Rightarrow> char" where
  "digit_char d = ''0123456789'' ! d"

fun to_string :: "nat \<Rightarrow> string" where
  "to_string n =
     (if n < 10 then [digit_char n] else to_string (n div 10) @ [digit_char (n mod 10)])"

declare to_string.simps [simp del]

text \<open>Arithmetic on \<open>unsigned int\<close> wraps around at \<open>2 ^ 32\<close>.\<close>

definition uint_minus :: "nat \<Rightarrow> nat \<Rightarrow> nat" where
  "uint_minus a b = (a + 2 ^ 32 - b mod 2 ^ 32) mod 2 ^ 32"

section \<open>The world outside the two classes\<close>

text \<open>
  The logger (logger.h) is a collaborator: \<open>LOG_DEBUG(msg)\<close> and its siblings hand a
  record to \<open>Logger::getInstance()\<close>. The model keeps the records handed over, in
  order.
\<close>

datatype LogLevel = DEBUG | INFO | WARNING | ERROR | FATAL

text \<open>
  A result set of the client library (\<open>MYSQL_RES\<close>), as \<open>mysql_store_result\<close>
  materialises it: the column names, the stored rows, the position of the row the next
  fetch returns, and the row fetched last. A field of a row is \<open>None\<close> for SQL NULL and
  the bytes of the value otherwise.
\<close>

record MYSQL_RES =
  res_fields :: "string list"
  res_data :: "string option list list"
  res_cursor :: nat
  res_current :: "string option list option"

text \<open>
  The calls the connection makes into the client library. A handle (\<open>MYSQL *\<close>) and a
  result set (\<open>MYSQL_RES *\<close>) are addresses, modelled as numbers; a nullable pointer is
  an \<open>option\<close>.
\<close>

datatype mysql_option =
    MYSQL_OPT_CONNECT_TIMEOUT nat
  | MYSQL_OPT_READ_TIMEOUT nat
  | MYSQL_OPT_WRITE_TIMEOUT nat
  | MYSQL_SET_CHARSET_NAME string

datatype api =
    Init
  | Options nat mysql_option
  | RealConnect nat string string string string nat
  | Close nat
  | Ping nat
  | Query nat string

text \<open>
  Everything the classes read or change outside their own fields:
  \<^item> \<open>clock\<close> and \<open>reads\<close>: what the k-th reading of the system clock returns
    (\<open>Utils::currentTimeMillis\<close>), and how many readings were taken;
  \<^item> \<open>random_string\<close> and \<open>draws\<close>: what the k-th call of
    \<open>Utils::generateRandomString\<close> returns for a length, and how many calls were made;
  \<^item> \<open>calls\<close>: the calls made into the client library so far, oldest first;
  \<^item> \<open>driver\<close>: how the library and the server answer: given the calls so far, the one
    being answered last, the error number and error text the call ends with (number 0
    is success). Any run of the real library is one such function, so a theorem for
    every \<open>driver\<close> covers every behaviour of library, network and server;
  \<^item> \<open>last_error\<close>: per handle, the error number and text of the last call on it, which
    \<open>mysql_errno\<close> and \<open>mysql_error\<close> read; \<open>server_last_error\<close> is what they read
    for a null handle;
  \<^item> \<open>results\<close>: the result sets in the library's memory;
  \<^item> \<open>logged\<close>: the records handed to the logger; \<open>stderr\<close>: the lines written to
    \<open>std::cerr\<close>.
\<close>

record world =
  clock :: "nat \<Rightarrow> int"
  reads :: nat
  random_string :: "nat \<Rightarrow> nat \<Rightarrow> string"
  draws :: nat
  calls :: "api list"
  driver :: "api list \<Rightarrow> nat \<times> string"
  last_error :: "nat \<Rightarrow> nat \<times> string"
  server_last_error :: "nat \<times> string"
  results :: "nat \<Rightarrow> MYSQL_RES"
  logged :: "(LogLevel \<times> string) list"
  stderr :: "string list"

definition LOG :: "LogLevel \<Rightarrow> string \<Rightarrow> world \<Rightarrow> world" where
  "LOG level msg w = w\<lparr>logged := logged w @ [(level, msg)]\<rparr>"

definition LOG_DEBUG :: "string \<Rightarrow> world \<Rightarrow> world" where
  "LOG_DEBUG msg w = LOG DEBUG msg w"

definition LOG_INFO :: "string \<Rightarrow> world \<Rightarrow> world" where
  "LOG_INFO msg w = LOG INFO msg w"

definition LOG_WARNING :: "string \<Rightarrow> world \<Rightarrow> world" where
  "LOG_WARNING msg w = LOG WARNING msg w"

definition LOG_ERROR :: "string \<Rightarrow> world \<Rightarrow> world" where
  "LOG_ERROR msg w = LOG ERROR msg w"

text \<open>\<open>std::cerr << text << std::endl\<close> (or \<open>'\n'\<close>): one more line on the error stream.\<close>

definition cerr :: "string \<Rightarrow> world \<Rightarrow> world" where
  "cerr line w = w\<lparr>stderr := stderr w @ [line]\<rparr>"

subsection \<open>The client library's functions on a result set\<close>

text \<open>
  \<open>mysql_num_fields\<close>, \<open>mysql_num_rows\<close>, \<open>mysql_fetch_field\<close>, \<open>mysql_fetch_row\<close>,
  \<open>mysql_fetch_lengths\<close> and \<open>mysql_data_seek\<close> of the MySQL C API, on a stored result
  set. A row is handed out as an array of \<open>char *\<close>: a null pointer for SQL NULL,
  otherwise the address of the value's bytes, which the library ends with one zero
  byte. The memory behind such a pointer is modelled by the bytes that can be read
  from it: the value followed by its terminator. \<open>mysql_fetch_lengths\<close> gives the byte
  length of each value of the row fetched last (0 for NULL), and a null pointer when no
  row is current.
\<close>

definition NUL :: char where
  "NUL = CHR 0x00"

definition c_buffer :: "string \<Rightarrow> string" where
  "c_buffer bytes = bytes @ [NUL]"

definition mysql_num_fields :: "MYSQL_RES \<Rightarrow> nat" where
  "mysql_num_fields r = length (res_fields r)"

definition mysql_num_rows :: "MYSQL_RES \<Rightarrow> nat" where
  "mysql_num_rows r = length (res_data r)"

definition mysql_fetch_field :: "MYSQL_RES \<Rightarrow> string list" where
  "mysql_fetch_field r = res_fields r"

definition mysql_fetch_row :: "MYSQL_RES \<Rightarrow> string option list option \<times> MYSQL_RES" where
  "mysql_fetch_row r =
     (if res_cursor r < length (res_data r)
      then (Some (map (map_option c_buffer) (res_data r ! res_cursor r)),
            r\<lparr>res_cursor := Suc (res_cursor r),
              res_current := Some (res_data r ! res_cursor r)\<rparr>)
      else (None, r\<lparr>res_current := None\<rparr>))"

definition field_length :: "string option \<Rightarrow> nat" where
  "field_length f = (case f of None \<Rightarrow> 0 | Some bytes \<Rightarrow> length bytes)"

definition mysql_fetch_lengths :: "MYSQL_RES \<Rightarrow> nat list option" where
  "mysql_fetch_lengths r = map_option (map field_length) (res_current r)"

definition mysql_data_seek :: "MYSQL_RES \<Rightarrow> nat \<Rightarrow> MYSQL_RES" where
  "mysql_data_seek r offset =
     r\<lparr>res_cursor := min offset (length (res_data r)), res_current := None\<rparr>"

subsection \<open>The standard library's string conversions\<close>

text \<open>
  A \<open>const char *\<close> passed where a \<open>std::string\<close> is expected is read up to its first
  zero byte. \<open>std::stoi\<close> and \<open>std::stoll\<close> (base 10) skip leading white space, read
  an optional sign and then decimal digits, and ignore what follows; they throw
  \<open>std::invalid_argument\<close> when there is no digit to read and \<open>std::out_of_range\<close>
  when the number does not fit the result type (\<open>int\<close>: 32 bits, \<open>long long\<close>: 64
  bits). The text of \<open>what()\<close> is the function's name, as in libstdc++.
\<close>

definition c_str :: "string \<Rightarrow> string" where
  "c_str buf = takeWhile (\<lambda>c. c \<noteq> NUL) buf"

definition isspace :: "char \<Rightarrow> bool" where
  "isspace c = (of_char c \<in> {9, 10, 11, 12, 13, 32 :: nat})"

definition isdigit :: "char \<Rightarrow> bool" where
  "isdigit c = (48 \<le> (of_char c :: nat) \<and> (of_char c :: nat) \<le> 57)"

definition digits_value :: "string \<Rightarrow> int" where
  "digits_value ds = foldl (\<lambda>acc c. 10 * acc + (int (of_char c) - 48)) 0 ds"

definition parse_integer :: "string \<Rightarrow> int option" where
  "parse_integer s =
     (let s1 = dropWhile isspace s;
          negative = (s1 \<noteq> [] \<and> hd s1 = CHR ''-'');
          s2 = (if s1 \<noteq> [] \<and> (hd s1 = CHR ''-'' \<or> hd s1 = CHR ''+'') then tl s1 else s1);
          ds = takeWhile isdigit s2
      in if ds = [] then None
         else Some (if negative then - digits_value ds else digits_value ds))"

definition stoi :: "string \<Rightarrow> cpp_exception + int" where
  "stoi s =
     (case parse_integer s of
        None \<Rightarrow> Inl (invalid_argument ''stoi'')
      | Some v \<Rightarrow>
          if v < - (2 ^ 31) \<or> 2 ^ 31 - 1 < v then Inl (out_of_range ''stoi'') else Inr v)"

definition stoll :: "string \<Rightarrow> cpp_exception + int" where
  "stoll s =
     (case parse_integer s of
        None \<Rightarrow> Inl (invalid_argument ''stoll'')
      | Some v \<Rightarrow>
          if v < - (2 ^ 63) \<or> 2 ^ 63 - 1 < v then Inl (out_of_range ''stoll'') else Inr v)"

section \<open>QueryResult (query_result.h and its implementation file)\<close>

text \<open>
  The fields of the class. \<open>m_result\<close> is the address of the result set, null for a
  statement without one. \<open>m_currentRow\<close> (\<open>MYSQL_ROW\<close>, a \<open>char **\<close>) and \<open>m_lengths\<close>
  (\<open>unsigned long *\<close>) point at arrays of the library; the model holds what is read
  through them. The header names the row count \<open>m_rows\<close> and the source file
  \<open>m_rowCount\<close>; the model follows the source file.
\<close>

record QueryResult =
  m_result :: "nat option"
  m_currentRow :: "string option list option"
  m_lengths :: "nat list option"
  m_fieldCount :: nat
  m_rowCount :: nat
  m_affectedRows :: nat
  m_fieldNames :: "string list"

text \<open>
  \<open>initializeMetaData\<close>: the loop pushes \<open>fields[i].name\<close> for \<open>i\<close> from 0 up to
  \<open>m_fieldCount\<close>. The source calls \<open>mysql_num_rowCount\<close>, a name the library does not
  have; it is read as \<open>mysql_num_rows\<close>.
\<close>

definition initializeMetaData :: "QueryResult \<Rightarrow> world \<Rightarrow> QueryResult \<times> world" where
  "initializeMetaData qr w =
     (case m_result qr of
        None \<Rightarrow> (qr, w)
      | Some p \<Rightarrow>
          let qr1 = qr\<lparr>m_fieldCount := mysql_num_fields (results w p)\<rparr>;
              qr2 = qr1\<lparr>m_rowCount := mysql_num_rows (results w p)\<rparr>;
              fields = mysql_fetch_field (results w p);
              qr3 = qr2\<lparr>m_fieldNames := map (\<lambda>i. fields ! i) [0 ..< m_fieldCount qr2]\<rparr>
          in (qr3,
              LOG_DEBUG (''QueryResult initialized: '' @ to_string (m_fieldCount qr3) @
                         '' fields, '' @ to_string (m_rowCount qr3) @ '' rows'') w))"

text \<open>The constructor \<open>QueryResult(MYSQL_RES *result, unsigned long long affectedRows)\<close>.\<close>

definition QueryResult_ctor :: "nat option \<Rightarrow> nat \<Rightarrow> world \<Rightarrow> QueryResult \<times> world" where
  "QueryResult_ctor result affectedRows w =
     (let qr = \<lparr>m_result = result, m_currentRow = None, m_lengths = None,
                m_fieldCount = 0, m_rowCount = 0, m_affectedRows = affectedRows,
                m_fieldNames = []\<rparr>
      in if m_result qr \<noteq> None
         then (let (qr1, w1) = initializeMetaData qr w
               in (qr1,
                   LOG_DEBUG (''QueryResult created with '' @ to_string (m_rowCount qr1) @
                              '' rows, '' @ to_string (m_fieldCount qr1) @ '' fields.'') w1))
         else (qr,
               LOG_DEBUG (''QueryResult created for non-select operation with '' @
                          to_string (m_affectedRows qr) @ '' affectedRows.'') w))"

text \<open>\<open>next()\<close> (named \<open>next_row\<close> here) and \<open>reset()\<close>.\<close>

definition next_row :: "QueryResult \<Rightarrow> world \<Rightarrow> bool \<times> QueryResult \<times> world" where
  "next_row qr w =
     (case m_result qr of
        None \<Rightarrow> (False, qr, w)
      | Some p \<Rightarrow>
          let (row, r1) = mysql_fetch_row (results w p);
              w1 = w\<lparr>results := (results w)(p := r1)\<rparr>;
              qr1 = qr\<lparr>m_currentRow := row\<rparr>
          in if m_currentRow qr1 \<noteq> None
             then (True, qr1\<lparr>m_lengths := mysql_fetch_lengths (results w1 p)\<rparr>, w1)
             else (False, qr1, w1))"

definition reset :: "QueryResult \<Rightarrow> world \<Rightarrow> bool \<times> QueryResult \<times> world" where
  "reset qr w =
     (case m_result qr of
        None \<Rightarrow> (False, qr, w)
      | Some p \<Rightarrow>
          let w1 = w\<lparr>results := (results w)(p := mysql_data_seek (results w p) 0)\<rparr>
          in (True, qr\<lparr>m_currentRow := None, m_lengths := None\<rparr>, w1))"

text \<open>A sequence of \<open>next()\<close> and \<open>reset()\<close> calls, their return values dropped.\<close>

datatype navigation = Next | Reset

fun navigate :: "navigation list \<Rightarrow> QueryResult \<Rightarrow> world \<Rightarrow> QueryResult \<times> world" where
  "navigate [] qr w = (qr, w)"
| "navigate (Next # ops) qr w = (let (b, qr1, w1) = next_row qr w in navigate ops qr1 w1)"
| "navigate (Reset # ops) qr w = (let (b, qr1, w1) = reset qr w in navigate ops qr1 w1)"

text \<open>The metadata getters.\<close>

definition getFieldCount :: "QueryResult \<Rightarrow> nat" where
  "getFieldCount qr = m_fieldCount qr"

definition getRowCount :: "QueryResult \<Rightarrow> nat" where
  "getRowCount qr = m_rowCount qr"

definition getAffectedRows :: "QueryResult \<Rightarrow> nat" where
  "getAffectedRows qr = m_affectedRows qr"

definition getFieldNames :: "QueryResult \<Rightarrow> string list" where
  "getFieldNames qr = m_fieldNames qr"

definition isEmpty :: "QueryResult \<Rightarrow> bool" where
  "isEmpty qr = (m_result qr \<noteq> None \<and> m_rowCount qr = 0)"

definition hasResultSet :: "QueryResult \<Rightarrow> bool" where
  "hasResultSet qr = (m_result qr \<noteq> None)"

text \<open>
  \<open>checkIndex\<close> and \<open>checkRow\<close> return nothing and throw; \<open>Inl\<close> is the exception
  thrown. \<open>m_fieldCount - 1\<close> is computed on \<open>unsigned int\<close>.
\<close>

definition checkIndex :: "nat \<Rightarrow> QueryResult \<Rightarrow> cpp_exception + unit" where
  "checkIndex index qr =
     (if index \<ge> m_fieldCount qr
      then Inl (out_of_range (''Field index out of range: '' @ to_string index @
                              '', max = '' @ to_string (uint_minus (m_fieldCount qr) 1)))
      else Inr ())"

definition checkRow :: "QueryResult \<Rightarrow> cpp_exception + unit" where
  "checkRow qr =
     (if m_currentRow qr = None
      then Inl (runtime_error ''No currentRow available, call next() first.'')
      else Inr ())"

text \<open>
  The reads \<open>m_currentRow[index]\<close> and \<open>m_lengths[index]\<close>. \<open>None\<close>: the pointer is
  null or the index is outside the array, which C++ leaves undefined.
\<close>

definition currentRow_at :: "QueryResult \<Rightarrow> nat \<Rightarrow> string option option" where
  "currentRow_at qr index =
     (case m_currentRow qr of
        None \<Rightarrow> None
      | Some row \<Rightarrow> if index < length row then Some (row ! index) else None)"

definition lengths_at :: "QueryResult \<Rightarrow> nat \<Rightarrow> nat option" where
  "lengths_at qr index =
     (case m_lengths qr of
        None \<Rightarrow> None
      | Some ls \<Rightarrow> if index < length ls then Some (ls ! index) else None)"

text \<open>
  \<open>safeConvert\<close> for \<open>int\<close>, \<open>long long\<close> and \<open>double\<close>. The argument is a
  \<open>const char *\<close>; the conversion functions read it as a C string. A \<open>double\<close> is
  modelled by the real number it denotes, and \<open>std::stod\<close> is a parameter: the
  rounding of a decimal text to a \<open>double\<close> is not modelled.
\<close>

definition safeConvert_int :: "string option \<Rightarrow> int \<Rightarrow> world \<Rightarrow> int \<times> world" where
  "safeConvert_int value defaultValue w =
     (case value of
        None \<Rightarrow> (defaultValue, w)
      | Some buf \<Rightarrow>
          (case stoi (c_str buf) of
             Inr v \<Rightarrow> (v, w)
           | Inl e \<Rightarrow>
               (defaultValue,
                LOG_WARNING (''Failed to convert '' @ [CHR 0x27] @ c_str buf @ [CHR 0x27] @
                             '' to int: '' @ what e) w)))"

definition safeConvert_long :: "string option \<Rightarrow> int \<Rightarrow> world \<Rightarrow> int \<times> world" where
  "safeConvert_long value defaultValue w =
     (case value of
        None \<Rightarrow> (defaultValue, w)
      | Some buf \<Rightarrow>
          (case stoll (c_str buf) of
             Inr v \<Rightarrow> (v, w)
           | Inl e \<Rightarrow>
               (defaultValue,
                LOG_WARNING (''Failed to convert '' @ [CHR 0x27] @ c_str buf @ [CHR 0x27] @
                             '' to long long: '' @ what e) w)))"

definition safeConvert_double ::
  "(string \<Rightarrow> cpp_exception + real) \<Rightarrow> string option \<Rightarrow> real \<Rightarrow> world \<Rightarrow> real \<times> world" where
  "safeConvert_double stod value defaultValue w =
     (case value of
        None \<Rightarrow> (defaultValue, w)
      | Some buf \<Rightarrow>
          (case stod (c_str buf) of
             Inr v \<Rightarrow> (v, w)
           | Inl e \<Rightarrow>
               (defaultValue,
                LOG_WARNING (''Failed to convert '' @ [CHR 0x27] @ c_str buf @ [CHR 0x27] @
                             '' to double: '' @ what e) w)))"

text \<open>
  The accessors by index. Each wraps its body in \<open>try\<close> and catches every
  \<open>std::exception\<close>; the handler writes \<open>what()\<close> to \<open>std::cerr\<close> and has no
  \<open>return\<close> and no \<open>throw\<close>, so control then reaches the end of the function.
  \<open>std::string(p, n)\<close> copies the \<open>n\<close> bytes at \<open>p\<close>.
\<close>

definition getString :: "nat \<Rightarrow> QueryResult \<Rightarrow> world \<Rightarrow> string outcome \<times> world" where
  "getString index qr w =
     (if m_result qr \<noteq> None \<and> m_currentRow qr \<noteq> None
      then (case checkIndex index qr of
              Inl e \<Rightarrow> (Undefined, cerr (what e) w)
            | Inr _ \<Rightarrow>
               (case checkRow qr of
                  Inl e \<Rightarrow> (Undefined, cerr (what e) w)
                | Inr _ \<Rightarrow>
                   (case currentRow_at qr index of
                      None \<Rightarrow> (Undefined, w)
                    | Some None \<Rightarrow> (Returns [], w)
                    | Some (Some buf) \<Rightarrow>
                       (case lengths_at qr index of
                          None \<Rightarrow> (Undefined, w)
                        | Some n \<Rightarrow>
                            if n \<le> length buf then (Returns (take n buf), w)
                            else (Undefined, w)))))
      else (Throws (runtime_error
                      (if m_result qr = None
                       then ''this is non-select operation, cannot getString''
                       else ''Please invoke next() before getString()'')), w))"

definition getInt :: "nat \<Rightarrow> QueryResult \<Rightarrow> world \<Rightarrow> int outcome \<times> world" where
  "getInt index qr w =
     (case checkIndex index qr of
        Inl e \<Rightarrow> (Undefined, cerr (what e) w)
      | Inr _ \<Rightarrow>
         (case checkRow qr of
            Inl e \<Rightarrow> (Undefined, cerr (what e) w)
          | Inr _ \<Rightarrow>
             (case currentRow_at qr index of
                None \<Rightarrow> (Undefined, w)
              | Some None \<Rightarrow> (Returns 0, w)
              | Some (Some buf) \<Rightarrow>
                  (let (v, w1) = safeConvert_int (Some buf) 0 w in (Returns v, w1)))))"

definition getLong :: "nat \<Rightarrow> QueryResult \<Rightarrow> world \<Rightarrow> int outcome \<times> world" where
  "getLong index qr w =
     (case checkIndex index qr of
        Inl e \<Rightarrow> (Undefined, cerr (what e) w)
      | Inr _ \<Rightarrow>
         (case checkRow qr of
            Inl e \<Rightarrow> (Undefined, cerr (what e) w)
          | Inr _ \<Rightarrow>
             (case currentRow_at qr index of
                None \<Rightarrow> (Undefined, w)
              | Some None \<Rightarrow> (Returns 0, w)
              | Some (Some buf) \<Rightarrow>
                  (let (v, w1) = safeConvert_long (Some buf) 0 w in (Returns v, w1)))))"

definition getDouble ::
  "(string \<Rightarrow> cpp_exception + real) \<Rightarrow> nat \<Rightarrow> QueryResult \<Rightarrow> world \<Rightarrow> real outcome \<times> world" where
  "getDouble stod index qr w =
     (case checkIndex index qr of
        Inl e \<Rightarrow> (Undefined, cerr (what e) w)
      | Inr _ \<Rightarrow>
         (case checkRow qr of
            Inl e \<Rightarrow> (Undefined, cerr (what e) w)
          | Inr _ \<Rightarrow>
             (case currentRow_at qr index of
                None \<Rightarrow> (Undefined, w)
              | Some None \<Rightarrow> (Returns 0, w)
              | Some (Some buf) \<Rightarrow>
                  (let (v, w1) = safeConvert_double stod (Some buf) 0 w in (Returns v, w1)))))"

definition isNull :: "nat \<Rightarrow> QueryResult \<Rightarrow> world \<Rightarrow> bool outcome \<times> world" where
  "isNull index qr w =
     (case checkIndex index qr of
        Inl e \<Rightarrow> (Undefined, cerr (what e) w)
      | Inr _ \<Rightarrow>
         (case checkRow qr of
            Inl e \<Rightarrow> (Undefined, cerr (what e) w)
          | Inr _ \<Rightarrow>
             (case currentRow_at qr index of
                None \<Rightarrow> (Undefined, w)
              | Some f \<Rightarrow> (Returns (f = None), w))))"

section \<open>Connection (connection.h, connection.cpp)\<close>

subsection \<open>The client library's functions on a handle\<close>

text \<open>
  Every call into the library is appended to \<open>calls\<close> and answered by \<open>driver\<close>.
  \<open>mysql_init\<close> returns a new handle (its address is the number of calls made before
  it, so no two allocations share one) or null. The calls that talk to the server
  (\<open>mysql_real_connect\<close>, \<open>mysql_ping\<close>, \<open>mysql_query\<close>) record their error number
  and text for the handle, clearing both on success. \<open>mysql_error\<close> and \<open>mysql_errno\<close>
  accept a null handle and then report the library-wide last error.
\<close>

definition answer :: "api \<Rightarrow> world \<Rightarrow> (nat \<times> string) \<times> world" where
  "answer a w = (let h = calls w @ [a] in (driver w h, w\<lparr>calls := h\<rparr>))"

definition on_handle :: "nat \<Rightarrow> api \<Rightarrow> world \<Rightarrow> nat \<times> world" where
  "on_handle h a w =
     (let (r, w1) = answer a w;
          e = (if fst r = 0 then (0, []) else r)
      in (fst r, w1\<lparr>last_error := (last_error w1)(h := e)\<rparr>))"

definition mysql_init :: "world \<Rightarrow> nat option \<times> world" where
  "mysql_init w =
     (let (r, w1) = answer Init w
      in if fst r = 0 then (Some (length (calls w)), w1)
         else (None, w1\<lparr>server_last_error := r\<rparr>))"

definition mysql_options :: "nat \<Rightarrow> mysql_option \<Rightarrow> world \<Rightarrow> nat \<times> world" where
  "mysql_options h opt w = (let (r, w1) = answer (Options h opt) w in (fst r, w1))"

definition mysql_real_connect ::
  "nat \<Rightarrow> string \<Rightarrow> string \<Rightarrow> string \<Rightarrow> string \<Rightarrow> nat \<Rightarrow> world \<Rightarrow> nat option \<times> world" where
  "mysql_real_connect h host user passwd db port w =
     (let (e, w1) = on_handle h (RealConnect h host user passwd db port) w
      in (if e = 0 then Some h else None, w1))"

definition mysql_close :: "nat \<Rightarrow> world \<Rightarrow> world" where
  "mysql_close h w = snd (answer (Close h) w)"

definition mysql_ping :: "nat \<Rightarrow> world \<Rightarrow> nat \<times> world" where
  "mysql_ping h w = (let (e, w1) = on_handle h (Ping h) w in (if e = 0 then 0 else 1, w1))"

definition mysql_query :: "nat \<Rightarrow> string \<Rightarrow> world \<Rightarrow> nat \<times> world" where
  "mysql_query h sql w =
     (let (e, w1) = on_handle h (Query h sql) w in (if e = 0 then 0 else 1, w1))"

definition mysql_error :: "nat option \<Rightarrow> world \<Rightarrow> string" where
  "mysql_error handle w =
     (case handle of None \<Rightarrow> snd (server_last_error w) | Some h \<Rightarrow> snd (last_error w h))"

definition mysql_errno :: "nat option \<Rightarrow> world \<Rightarrow> nat" where
  "mysql_errno handle w =
     (case handle of None \<Rightarrow> fst (server_last_error w) | Some h \<Rightarrow> fst (last_error w h))"

text \<open>\<open>Utils::currentTimeMillis\<close> and \<open>Utils::generateRandomString\<close> (utils.h).\<close>

definition currentTimeMillis :: "world \<Rightarrow> int \<times> world" where
  "currentTimeMillis w = (clock w (reads w), w\<lparr>reads := Suc (reads w)\<rparr>)"

definition generateRandomString :: "nat \<Rightarrow> world \<Rightarrow> string \<times> world" where
  "generateRandomString len w = (random_string w (draws w) len, w\<lparr>draws := Suc (draws w)\<rparr>)"

subsection \<open>The class\<close>

text \<open>
  The fields of the class. \<open>m_mutex\<close> is left out: connection.h declares it a
  \<open>std::recursive_mutex\<close>, every method takes it on entry and gives it back on
  return, and the model runs one thread, where taking a recursive mutex (again)
  always succeeds at once.
\<close>

record Connection =
  m_mysql :: "nat option"
  m_host :: string
  m_user :: string
  m_password :: string
  m_database :: string
  m_port :: nat
  m_connectionId :: string
  m_creationTime :: int
  m_lastActiveTime :: int
  m_connected :: bool

definition updateLastActiveTime :: "Connection \<Rightarrow> world \<Rightarrow> Connection \<times> world" where
  "updateLastActiveTime c w =
     (let (t, w1) = currentTimeMillis w in (c\<lparr>m_lastActiveTime := t\<rparr>, w1))"

text \<open>\<open>init()\<close> and the constructor, which can throw.\<close>

definition init :: "Connection \<Rightarrow> world \<Rightarrow> Connection outcome \<times> world" where
  "init c w =
     (let (h, w1) = mysql_init w;
          c1 = c\<lparr>m_mysql := h\<rparr>
      in case m_mysql c1 of
           None \<Rightarrow>
             (Throws (runtime_error ''Failed to initialize MYSQL connection object.''),
              LOG_ERROR ''Failed to initialize MYSQL connection object.'' w1)
         | Some p \<Rightarrow>
             let (r1, w2) = mysql_options p (MYSQL_OPT_CONNECT_TIMEOUT 5) w1;
                 w3 = (if r1 \<noteq> 0 then LOG_WARNING ''Failed to set connection timeout'' w2
                       else w2);
                 (r2, w4) = mysql_options p (MYSQL_OPT_READ_TIMEOUT 30) w3;
                 w5 = (if r2 \<noteq> 0 then LOG_WARNING ''Failed to set read timeout'' w4 else w4);
                 (r3, w6) = mysql_options p (MYSQL_OPT_WRITE_TIMEOUT 30) w5;
                 w7 = (if r3 \<noteq> 0 then LOG_WARNING ''Failed to set write timeout'' w6 else w6);
                 (r4, w8) = mysql_options p (MYSQL_SET_CHARSET_NAME ''uft8mb4'') w7;
                 w9 = (if r4 \<noteq> 0 then LOG_WARNING ''Failed to set charset to utf8mb4'' w8
                       else w8)
             in (Returns c1,
                 LOG_INFO (''MYSQL connection object initialized ['' @ m_connectionId c1 @
                           '']'') w9))"

definition Connection_ctor ::
  "string \<Rightarrow> string \<Rightarrow> string \<Rightarrow> string \<Rightarrow> nat \<Rightarrow> world \<Rightarrow> Connection outcome \<times> world" where
  "Connection_ctor host user password database port w =
     (let (cid, w1) = generateRandomString 16 w;
          (t, w2) = currentTimeMillis w1;
          c = \<lparr>m_mysql = None, m_host = host, m_user = user, m_password = password,
               m_database = database, m_port = port, m_connectionId = cid,
               m_creationTime = t, m_lastActiveTime = t, m_connected = False\<rparr>;
          w3 = LOG_INFO (''Creating connection ['' @ m_connectionId c @ ''] to '' @ m_user c @
                         ''@'' @ m_host c @ '':'' @ to_string (m_port c) @ ''/'' @
                         m_database c) w2
      in init c w3)"

text \<open>
  \<open>isValid()\<close> and \<open>getLastError()\<close> call each other: \<open>isValid\<close> asks for the last
  error when the probe fails, and \<open>getLastError\<close> starts with \<open>isValid\<close>. Nothing in
  the source bounds the nesting, so the model bounds it: the first argument is the
  number of nested calls still allowed, and \<open>None\<close> says that the calls nested deeper
  than that. A probe that keeps failing leads there whatever the bound (lemma
  \<open>dead_probe_never_returns\<close>). The other methods pass the bound on to the calls they
  make.
\<close>

fun isValid :: "nat \<Rightarrow> Connection \<Rightarrow> world \<Rightarrow> (bool \<times> Connection \<times> world) option"
  and getLastError :: "nat \<Rightarrow> Connection \<Rightarrow> world \<Rightarrow> (string \<times> Connection \<times> world) option"
where
  "isValid 0 c w = None"
| "isValid (Suc depth) c w =
     (case m_mysql c of
        None \<Rightarrow>
          Some (False, c,
                LOG_WARNING (''Please initialize mysql connection object ['' @
                             m_connectionId c @ '']'') w)
      | Some h \<Rightarrow>
          if \<not> m_connected c
          then Some (False, c,
                     LOG_WARNING (''Please connect to MySQL Server ['' @ m_connectionId c @
                                  '']'') w)
          else (let (r, w1) = mysql_ping h w
                in if r = 0
                   then (let (c1, w2) = updateLastActiveTime c w1 in Some (True, c1, w2))
                   else (case getLastError depth c w1 of
                           None \<Rightarrow> None
                         | Some (error, c1, w2) \<Rightarrow>
                             Some (False, c1,
                                   LOG_ERROR (''Connection validation failed ['' @
                                              m_connectionId c1 @ '']: '' @ error) w2))))"
| "getLastError 0 c w = None"
| "getLastError (Suc depth) c w =
     (case isValid depth c w of
        None \<Rightarrow> None
      | Some (valid, c1, w1) \<Rightarrow>
          if \<not> valid then Some (''MySQL connection not established!'', c1, w1)
          else Some (mysql_error (m_mysql c1) w1, c1, w1))"

definition getLastErrorCode ::
  "nat \<Rightarrow> Connection \<Rightarrow> world \<Rightarrow> (nat \<times> Connection \<times> world) option" where
  "getLastErrorCode depth c w =
     (case isValid depth c w of
        None \<Rightarrow> None
      | Some (valid, c1, w1) \<Rightarrow>
          if \<not> valid then Some (0, c1, w1)
          else Some (mysql_errno (m_mysql c1) w1, c1, w1))"

definition connect :: "nat \<Rightarrow> Connection \<Rightarrow> world \<Rightarrow> (bool \<times> Connection \<times> world) option" where
  "connect depth c w =
     (if m_connected c
      then Some (True, c,
                 LOG_WARNING (''connection to MySQL Server has established ['' @
                              m_connectionId c @ '']'') w)
      else (case m_mysql c of
              None \<Rightarrow>
                Some (False, c,
                      LOG_ERROR (''MySQL connection object not initialized ['' @
                                 m_connectionId c @ '']'') w)
            | Some h \<Rightarrow>
                let w1 = LOG_INFO (''Connecting to MySQL server ['' @ m_connectionId c @
                                   '']'') w;
                    (result, w2) = mysql_real_connect h (m_host c) (m_user c) (m_password c)
                                     (m_database c) (m_port c) w1
                in if result = None
                   then (case getLastError depth c w2 of
                           None \<Rightarrow> None
                         | Some (error, c1, w3) \<Rightarrow>
                             Some (False, c1,
                                   LOG_ERROR (''Failed to connect to MySQL Server: ['' @
                                              m_connectionId c1 @ '']: '' @ error) w3))
                   else (let c1 = c\<lparr>m_connected := True\<rparr>;
                             (c2, w3) = updateLastActiveTime c1 w2
                         in Some (True, c2,
                                  LOG_INFO (''Successfully to connect to MySQL Server: ['' @
                                            m_connectionId c2 @ '']'') w3))))"

definition close :: "Connection \<Rightarrow> world \<Rightarrow> Connection \<times> world" where
  "close c w =
     (case m_mysql c of
        Some h \<Rightarrow>
          (c\<lparr>m_mysql := None, m_connected := False\<rparr>,
           LOG_INFO (''MySQL Connection closed ['' @ m_connectionId c @ '']'')
             (mysql_close h w))
      | None \<Rightarrow> (c, LOG_INFO (''MySQL Connection closed ['' @ m_connectionId c @ '']'') w))"

text \<open>\<open>close()\<close> called \<open>k\<close> times in a row.\<close>

fun close_times :: "nat \<Rightarrow> Connection \<Rightarrow> world \<Rightarrow> Connection \<times> world" where
  "close_times 0 c w = (c, w)"
| "close_times (Suc k) c w = (let (c1, w1) = close c w in close_times k c1 w1)"

text \<open>
  The transaction methods. \<open>beginTransaction\<close> and \<open>commit\<close> return from the guard
  \<open>if(!m_mysql || !m_connected)\<close>. The guard of \<open>rollback\<close> logs and has no
  \<open>return\<close>: the method goes on to \<open>mysql_query(m_mysql, "ROLLBACK")\<close>, which
  dereferences the handle it is given.
\<close>

definition beginTransaction ::
  "nat \<Rightarrow> Connection \<Rightarrow> world \<Rightarrow> (bool \<times> Connection \<times> world) option" where
  "beginTransaction depth c w =
     (case m_mysql c of
        None \<Rightarrow>
          Some (False, c,
                LOG_ERROR (''Connection not established ['' @ m_connectionId c @ '']'') w)
      | Some h \<Rightarrow>
          if \<not> m_connected c
          then Some (False, c,
                     LOG_ERROR (''Connection not established ['' @ m_connectionId c @ '']'') w)
          else (let w1 = LOG_DEBUG (''start transaction ['' @ m_connectionId c @ '']'') w;
                    (r, w2) = mysql_query h ''START TRANSACTION'' w1
                in if r \<noteq> 0
                   then (case getLastError depth c w2 of
                           None \<Rightarrow> None
                         | Some (e, c1, w3) \<Rightarrow>
                             Some (False, c1,
                                   LOG_ERROR (''Failed to begin transaction ['' @
                                              m_connectionId c @ '']: '' @ e) w3))
                   else (let (c1, w3) = updateLastActiveTime c w2 in Some (True, c1, w3))))"

definition commit ::
  "nat \<Rightarrow> Connection \<Rightarrow> world \<Rightarrow> (bool \<times> Connection \<times> world) option" where
  "commit depth c w =
     (case m_mysql c of
        None \<Rightarrow>
          Some (False, c,
                LOG_ERROR (''Connection not established! ['' @ m_connectionId c @ '']'') w)
      | Some h \<Rightarrow>
          if \<not> m_connected c
          then Some (False, c,
                     LOG_ERROR (''Connection not established! ['' @ m_connectionId c @ '']'') w)
          else (let w1 = LOG_DEBUG (''commit transaction ['' @ m_connectionId c @ '']'') w;
                    (r, w2) = mysql_query h ''COMMIT'' w1
                in if r \<noteq> 0
                   then (case getLastError depth c w2 of
                           None \<Rightarrow> None
                         | Some (e, c1, w3) \<Rightarrow>
                             Some (False, c1,
                                   LOG_ERROR (''Failed to commit transaction ['' @
                                              m_connectionId c @ '']: '' @ e) w3))
                   else (let (c1, w3) = updateLastActiveTime c w2 in Some (True, c1, w3))))"

definition rollback ::
  "nat \<Rightarrow> Connection \<Rightarrow> world \<Rightarrow> (bool outcome \<times> Connection \<times> world) option" where
  "rollback depth c w =
     (let w1 = (if m_mysql c = None \<or> \<not> m_connected c
                then LOG_ERROR (''Connection not eatablished ['' @ m_connectionId c @ '']'') w
                else w);
          w2 = LOG_DEBUG (''roll back transaction ['' @ m_connectionId c @ '']'') w1
      in case m_mysql c of
           None \<Rightarrow> Some (Undefined, c, w2)
         | Some h \<Rightarrow>
             (let (r, w3) = mysql_query h ''ROLLBACK'' w2
              in if r \<noteq> 0
                 then (case getLastError depth c w3 of
                         None \<Rightarrow> None
                       | Some (e, c1, w4) \<Rightarrow>
                           Some (Returns False, c1,
                                 LOG_ERROR (''Failed to rollback ['' @ m_connectionId c @
                                            '']: '' @ e) w4))
                 else (let (c1, w4) = updateLastActiveTime c w3
                       in Some (Returns True, c1, w4))))"

section \<open>Invariants\<close>

text \<open>
  What the client library guarantees of a result set: every stored row has one field
  per column.
\<close>

definition res_ok :: "MYSQL_RES \<Rightarrow> bool" where
  "res_ok r = list_all (\<lambda>row. length row = length (res_fields r)) (res_data r)"

text \<open>
  A QueryResult that owns the result set at address \<open>p\<close>: the constructor establishes
  this, and \<open>next()\<close> and \<open>reset()\<close> keep it (lemmas \<open>ctor_attached\<close>,
  \<open>next_row_attached\<close>, \<open>reset_attached\<close>, \<open>navigate_attached\<close>).
\<close>

definition attached :: "QueryResult \<Rightarrow> world \<Rightarrow> nat \<Rightarrow> bool" where
  "attached qr w p =
     (m_result qr = Some p \<and> res_ok (results w p) \<and>
      m_fieldCount qr = length (res_fields (results w p)))"

text \<open>
  A Connection is connected only while it holds a handle: the constructor establishes
  this and every method modelled here keeps it (lemmas \<open>ctor_handle_inv\<close>,
  \<open>connect_handle_inv\<close>, \<open>close_handle_inv\<close>, \<open>isValid_handle_inv\<close>,
  \<open>getLastError_handle_inv\<close>, \<open>getLastErrorCode_handle_inv\<close>,
  \<open>beginTransaction_handle_inv\<close>, \<open>commit_handle_inv\<close>, \<open>rollback_handle_inv\<close>).
\<close>

definition handle_inv :: "Connection \<Rightarrow> bool" where
  "handle_inv c = (m_connected c \<longrightarrow> m_mysql c \<noteq> None)"

section \<open>Concrete inputs\<close>

text \<open>
  A result set of three columns and two rows. The first row holds a number, a value
  with a zero byte inside, and SQL NULL; the second row starts with text that is not a
  number.
\<close>

definition example_res :: MYSQL_RES where
  "example_res =
     \<lparr>res_fields = [''id'', ''name'', ''note''],
      res_data = [[Some ''12'', Some [CHR ''a'', NUL, CHR ''b''], None],
                  [Some ''abc'', Some ''x'', Some []]],
      res_cursor = 0, res_current = None\<rparr>"

text \<open>
  A world whose library and server accept every call, one that is seven clock readings
  older, and one whose library and server refuse every call.
\<close>

definition example_world :: world where
  "example_world =
     \<lparr>clock = (\<lambda>k. 1000 + int k), reads = 0,
      random_string = (\<lambda>k n. take n ''AAAAAAAAAAAAAAAAAAAAAAAAAAAAAAAA''), draws = 0,
      calls = [], driver = (\<lambda>h. (0, [])), last_error = (\<lambda>h. (0, [])),
      server_last_error = (0, []), results = (\<lambda>p. example_res), logged = [], stderr = []\<rparr>"

definition later_world :: world where
  "later_world = example_world\<lparr>reads := 7\<rparr>"

definition refusing_world :: world where
  "refusing_world = example_world\<lparr>driver := (\<lambda>h. (2002, ''Connection refused''))\<rparr>"

text \<open>The cursor over \<open>example_res\<close>: as constructed, on its first and on its second row.\<close>

definition example_qr :: QueryResult where
  "example_qr = fst (QueryResult_ctor (Some 0) 0 example_world)"

definition example_qr_world :: world where
  "example_qr_world = snd (QueryResult_ctor (Some 0) 0 example_world)"

definition first_row :: QueryResult where
  "first_row = fst (snd (next_row example_qr example_qr_world))"

definition first_row_world :: world where
  "first_row_world = snd (snd (next_row example_qr example_qr_world))"

definition second_row :: QueryResult where
  "second_row = fst (snd (next_row first_row first_row_world))"

definition second_row_world :: world where
  "second_row_world = snd (snd (next_row first_row first_row_world))"

definition example_walk :: "navigation list" where
  "example_walk = [Next, Reset, Next, Next, Next, Reset]"

text \<open>A \<open>std::stod\<close> that rejects every text.\<close>

definition failing_stod :: "string \<Rightarrow> cpp_exception + real" where
  "failing_stod s = Inl (invalid_argument ''stod'')"

text \<open>
  The connection the constructor builds in \<open>example_world\<close> from the parameters of the
  repository's test (lemma \<open>ctor_example\<close>), and the same connection once connected.
\<close>

definition fresh_connection :: Connection where
  "fresh_connection =
     \<lparr>m_mysql = Some 0, m_host = ''localhost'', m_user = ''admin'', m_password = ''123456'',
      m_database = ''testdb'', m_port = 3306, m_connectionId = ''AAAAAAAAAAAAAAAA'',
      m_creationTime = 1000, m_lastActiveTime = 1000, m_connected = False\<rparr>"

definition connected_connection :: Connection where
  "connected_connection = fresh_connection\<lparr>m_connected := True, m_lastActiveTime := 1000\<rparr>"

section \<open>QueryResult: the invariant and the examples\<close>

lemma to_string_digit: "n < 10 \<Longrightarrow> to_string n = [digit_char n]"
  by (simp add: to_string.simps)

lemma c_str_c_buffer: "c_str (c_buffer bytes) = c_str bytes"
  by (induction bytes) (simp_all add: c_str_def c_buffer_def)

lemma ctor_attached:
  assumes "res_ok (results w p)" and "QueryResult_ctor (Some p) n w = (qr, w')"
  shows "attached qr w' p"
  using assms
  by (auto simp: QueryResult_ctor_def initializeMetaData_def attached_def Let_def
      mysql_num_fields_def LOG_DEBUG_def LOG_def)

lemma next_row_attached:
  assumes "attached qr w p" and "next_row qr w = (b, qr', w')"
  shows "attached qr' w' p"
  using assms
  by (auto simp: next_row_def attached_def Let_def res_ok_def mysql_fetch_row_def
      split: prod.splits if_splits)

lemma reset_attached:
  assumes "attached qr w p" and "reset qr w = (b, qr', w')"
  shows "attached qr' w' p"
  using assms
  by (auto simp: reset_def attached_def Let_def res_ok_def mysql_data_seek_def)

lemma navigate_attached:
  "attached qr w p \<Longrightarrow> navigate ops qr w = (qr', w') \<Longrightarrow> attached qr' w' p"
proof (induction ops qr w rule: navigate.induct)
  case (1 qr w)
  then show ?case by simp
next
  case (2 ops qr w)
  obtain b qr1 w1 where n: "next_row qr w = (b, qr1, w1)" by (cases "next_row qr w") auto
  with 2 show ?case by (auto dest: next_row_attached)
next
  case (3 ops qr w)
  obtain b qr1 w1 where n: "reset qr w = (b, qr1, w1)" by (cases "reset qr w") auto
  with 3 show ?case by (auto dest: reset_attached)
qed

text \<open>What a successful \<open>next()\<close> leaves in the object.\<close>

lemma next_row_True:
  assumes "attached qr w p" and "next_row qr w = (True, qr', w')"
  shows "m_currentRow qr' =
           Some (map (map_option c_buffer) (res_data (results w p) ! res_cursor (results w p)))"
    and "m_lengths qr' =
           Some (map field_length (res_data (results w p) ! res_cursor (results w p)))"
    and "length (res_data (results w p) ! res_cursor (results w p)) = m_fieldCount qr'"
    and "m_result qr' = Some p"
    and "res_cursor (results w p) < length (res_data (results w p))"
  using assms
  by (auto simp: next_row_def attached_def Let_def res_ok_def mysql_fetch_row_def
      mysql_fetch_lengths_def list_all_length split: prod.splits if_splits)

lemma current_field:
  assumes "attached qr0 w0 p" and "next_row qr0 w0 = (True, qr, w)"
    and "index < getFieldCount qr"
  shows "currentRow_at qr index =
           Some (map_option c_buffer
                   (res_data (results w0 p) ! res_cursor (results w0 p) ! index))"
    and "lengths_at qr index =
           Some (field_length (res_data (results w0 p) ! res_cursor (results w0 p) ! index))"
    and "checkIndex index qr = Inr ()" and "checkRow qr = Inr ()"
    and "m_result qr \<noteq> None" and "m_currentRow qr \<noteq> None"
  using next_row_True [OF assms(1,2)] assms(3)
  by (simp_all add: currentRow_at_def lengths_at_def checkIndex_def checkRow_def
      getFieldCount_def)

lemma example_ctor:
  "QueryResult_ctor (Some 0) 0 example_world =
     (\<lparr>m_result = Some 0, m_currentRow = None, m_lengths = None, m_fieldCount = 3,
       m_rowCount = 2, m_affectedRows = 0, m_fieldNames = [''id'', ''name'', ''note'']\<rparr>,
      example_world\<lparr>logged := [(DEBUG, ''QueryResult initialized: 3 fields, 2 rows''),
                               (DEBUG, ''QueryResult created with 2 rows, 3 fields.'')]\<rparr>)"
  by (simp add: QueryResult_ctor_def initializeMetaData_def Let_def example_world_def
      example_res_def mysql_num_fields_def mysql_num_rows_def mysql_fetch_field_def
      LOG_DEBUG_def LOG_def to_string_digit digit_char_def upt_conv_Cons)

lemma example_qr_eq:
  "example_qr =
     \<lparr>m_result = Some 0, m_currentRow = None, m_lengths = None, m_fieldCount = 3,
      m_rowCount = 2, m_affectedRows = 0, m_fieldNames = [''id'', ''name'', ''note'']\<rparr>"
  by (simp add: example_qr_def example_ctor)

lemma example_attached: "attached example_qr example_qr_world 0"
  by (rule ctor_attached [where w = example_world and n = 0])
     (simp_all add: example_qr_def example_qr_world_def res_ok_def example_world_def
       example_res_def)

lemma results_example_qr_world: "results example_qr_world 0 = example_res"
  by (simp add: example_qr_world_def example_ctor) (simp add: example_world_def)

lemma first_row_next:
  "next_row example_qr example_qr_world = (True, first_row, first_row_world)"
  by (simp add: first_row_def first_row_world_def next_row_def example_qr_eq Let_def
      results_example_qr_world mysql_fetch_row_def example_res_def split: prod.splits)

lemma first_row_attached: "attached first_row first_row_world 0"
  using example_attached first_row_next by (rule next_row_attached)

lemma first_row_eq:
  "first_row =
     \<lparr>m_result = Some 0,
      m_currentRow =
        Some [Some (c_buffer ''12''), Some (c_buffer [CHR ''a'', NUL, CHR ''b'']), None],
      m_lengths = Some [2, 3, 0], m_fieldCount = 3,
      m_rowCount = 2, m_affectedRows = 0, m_fieldNames = [''id'', ''name'', ''note'']\<rparr>"
  by (simp add: first_row_def next_row_def example_qr_eq Let_def
      results_example_qr_world mysql_fetch_row_def mysql_fetch_lengths_def example_res_def
      field_length_def split: prod.splits)

lemma results_first_row_world:
  "results first_row_world 0 =
     example_res\<lparr>res_cursor := 1, res_current := Some (res_data example_res ! 0)\<rparr>"
  by (simp add: first_row_world_def next_row_def example_qr_eq Let_def
      results_example_qr_world mysql_fetch_row_def split: prod.splits)
     (simp add: example_res_def)

lemma second_row_next:
  "next_row first_row first_row_world = (True, second_row, second_row_world)"
  using next_row_True(4) [OF example_attached first_row_next]
  by (simp add: second_row_def second_row_world_def next_row_def Let_def
      results_first_row_world mysql_fetch_row_def example_res_def split: prod.splits)

lemma stoi_abc: "stoi (c_str ''abc'') = Inl (invalid_argument ''stoi'')"
  by (simp add: stoi_def parse_integer_def isspace_def isdigit_def c_str_def NUL_def)

lemma stoll_abc: "stoll (c_str ''abc'') = Inl (invalid_argument ''stoll'')"
  by (simp add: stoll_def parse_integer_def isspace_def isdigit_def c_str_def NUL_def)

text \<open>\<open>next()\<close> and \<open>reset()\<close> write \<open>m_currentRow\<close> and \<open>m_lengths\<close> and no other field.\<close>

lemma next_row_frame:
  "next_row qr w = (b, qr', w') \<Longrightarrow>
   qr' = qr\<lparr>m_currentRow := m_currentRow qr', m_lengths := m_lengths qr'\<rparr>"
  by (auto simp: next_row_def Let_def split: option.splits prod.splits if_splits)

lemma reset_frame:
  "reset qr w = (b, qr', w') \<Longrightarrow>
   qr' = qr\<lparr>m_currentRow := m_currentRow qr', m_lengths := m_lengths qr'\<rparr>"
  by (auto simp: reset_def Let_def split: option.splits)

lemma frame_trans:
  fixes a b c :: QueryResult
  assumes "b = a\<lparr>m_currentRow := m_currentRow b, m_lengths := m_lengths b\<rparr>"
    and "c = b\<lparr>m_currentRow := m_currentRow c, m_lengths := m_lengths c\<rparr>"
  shows "c = a\<lparr>m_currentRow := m_currentRow c, m_lengths := m_lengths c\<rparr>"
proof -
  have "m_result b = m_result a" "m_fieldCount b = m_fieldCount a" "m_rowCount b = m_rowCount a"
    "m_affectedRows b = m_affectedRows a" "m_fieldNames b = m_fieldNames a"
    by (subst assms(1), simp)+
  moreover have "m_result c = m_result b" "m_fieldCount c = m_fieldCount b"
    "m_rowCount c = m_rowCount b" "m_affectedRows c = m_affectedRows b"
    "m_fieldNames c = m_fieldNames b"
    by (subst assms(2), simp)+
  ultimately show ?thesis by (intro QueryResult.equality) simp_all
qed

lemma navigate_frame:
  "navigate ops qr w = (qr', w') \<Longrightarrow>
   qr' = qr\<lparr>m_currentRow := m_currentRow qr', m_lengths := m_lengths qr'\<rparr>"
proof (induction ops qr w rule: navigate.induct)
  case (1 qr w)
  then show ?case by simp
next
  case (2 ops qr w)
  obtain b qr1 w1 where n: "next_row qr w = (b, qr1, w1)" by (cases "next_row qr w") auto
  with 2 have "qr' = qr1\<lparr>m_currentRow := m_currentRow qr', m_lengths := m_lengths qr'\<rparr>"
    by simp
  with next_row_frame [OF n] show ?case by (rule frame_trans)
next
  case (3 ops qr w)
  obtain b qr1 w1 where n: "reset qr w = (b, qr1, w1)" by (cases "reset qr w") auto
  with 3 have "qr' = qr1\<lparr>m_currentRow := m_currentRow qr', m_lengths := m_lengths qr'\<rparr>"
    by simp
  with reset_frame [OF n] show ?case by (rule frame_trans)
qed

lemma ctor_metadata:
  assumes "QueryResult_ctor (Some p) n w0 = (qr, w)"
  shows "getFieldCount qr = mysql_num_fields (results w0 p)"
    and "getRowCount qr = mysql_num_rows (results w0 p)"
    and "getFieldNames qr = res_fields (results w0 p)"
  using assms
  by (auto simp: QueryResult_ctor_def initializeMetaData_def Let_def getFieldCount_def
      getRowCount_def getFieldNames_def mysql_num_fields_def mysql_fetch_field_def map_nth)

section \<open>QueryResult: the claims\<close>

text \<open>
  Claim C8. For every QueryResult constructed with a result set, \<open>getFieldCount()\<close>,
  \<open>getRowCount()\<close> and \<open>getFieldNames()\<close> return after any sequence of \<open>next()\<close> and
  \<open>reset()\<close> calls what they returned right after construction (the number of
  columns, the number of rows and the column names of the result set), and the object
  after the calls differs from the constructed one in \<open>m_currentRow\<close> and \<open>m_lengths\<close>
  only.
\<close>

theorem metadata_fixed_at_construction:
  assumes "QueryResult_ctor (Some p) n w0 = (qr, w)" and "navigate ops qr w = (qr', w')"
  shows "getFieldCount qr' = getFieldCount qr \<and> getRowCount qr' = getRowCount qr \<and>
         getFieldNames qr' = getFieldNames qr \<and>
         qr' = qr\<lparr>m_currentRow := m_currentRow qr', m_lengths := m_lengths qr'\<rparr> \<and>
         getFieldCount qr = mysql_num_fields (results w0 p) \<and>
         getRowCount qr = mysql_num_rows (results w0 p) \<and>
         getFieldNames qr = res_fields (results w0 p)"
proof -
  have f: "qr' = qr\<lparr>m_currentRow := m_currentRow qr', m_lengths := m_lengths qr'\<rparr>"
    using assms(2) by (rule navigate_frame)
  have "m_fieldCount qr' = m_fieldCount qr" "m_rowCount qr' = m_rowCount qr"
    "m_fieldNames qr' = m_fieldNames qr"
    by (subst f, simp)+
  with f ctor_metadata [OF assms(1)] show ?thesis
    by (simp add: getFieldCount_def getRowCount_def getFieldNames_def)
qed

theorem metadata_fixed_at_construction_witness:
  "getFieldCount (fst (navigate example_walk example_qr example_qr_world)) = 3 \<and>
   getRowCount (fst (navigate example_walk example_qr example_qr_world)) = 2 \<and>
   getFieldNames (fst (navigate example_walk example_qr example_qr_world)) =
     [''id'', ''name'', ''note'']"
proof -
  have c: "QueryResult_ctor (Some 0) 0 example_world = (example_qr, example_qr_world)"
    by (simp add: example_qr_def example_qr_world_def)
  have n: "navigate example_walk example_qr example_qr_world =
             (fst (navigate example_walk example_qr example_qr_world),
              snd (navigate example_walk example_qr example_qr_world))"
    by simp
  note m = metadata_fixed_at_construction [OF c n]
  have e1: "getFieldCount (fst (navigate example_walk example_qr example_qr_world)) =
              getFieldCount example_qr"
    using m by (elim conjE)
  have e2: "getRowCount (fst (navigate example_walk example_qr example_qr_world)) =
              getRowCount example_qr"
    using m by (elim conjE)
  have e3: "getFieldNames (fst (navigate example_walk example_qr example_qr_world)) =
              getFieldNames example_qr"
    using m by (elim conjE)
  show ?thesis
    unfolding e1 e2 e3
    by (simp add: example_qr_eq getFieldCount_def getRowCount_def getFieldNames_def)
qed

text \<open>
  Claim C4. For a QueryResult with a result set, a current row established by a
  successful \<open>next()\<close>, and a valid index whose field in that row of the result set is
  SQL NULL: \<open>isNull(index)\<close> returns true, \<open>getString(index)\<close> returns the empty
  string, \<open>getInt(index)\<close> and \<open>getLong(index)\<close> return 0 and \<open>getDouble(index)\<close>
  returns 0.0; nothing is logged or printed.
\<close>

theorem null_field_accessors:
  assumes "attached qr0 w0 p" and "next_row qr0 w0 = (True, qr, w)"
    and "index < getFieldCount qr"
    and "res_data (results w0 p) ! res_cursor (results w0 p) ! index = None"
  shows "isNull index qr v = (Returns True, v) \<and>
         getString index qr v = (Returns [], v) \<and>
         getInt index qr v = (Returns 0, v) \<and>
         getLong index qr v = (Returns 0, v) \<and>
         getDouble stod index qr v = (Returns 0, v)"
  using current_field [OF assms(1,2,3)] assms(4)
  by (simp add: isNull_def getString_def getInt_def getLong_def getDouble_def)

theorem null_field_accessors_witness:
  "isNull 2 first_row first_row_world = (Returns True, first_row_world) \<and>
   getString 2 first_row first_row_world = (Returns [], first_row_world) \<and>
   getInt 2 first_row first_row_world = (Returns 0, first_row_world) \<and>
   getLong 2 first_row first_row_world = (Returns 0, first_row_world) \<and>
   getDouble failing_stod 2 first_row first_row_world = (Returns 0, first_row_world)"
proof -
  have fc: "2 < getFieldCount first_row"
    using next_row_True(3) [OF example_attached first_row_next]
    by (simp add: getFieldCount_def results_example_qr_world example_res_def)
  have nl: "res_data (results example_qr_world 0) ! res_cursor (results example_qr_world 0) ! 2
              = None"
    by (simp add: results_example_qr_world example_res_def)
  show ?thesis
    by (rule null_field_accessors [OF example_attached first_row_next fc nl])
qed

text \<open>
  Claim C5. For a current-row field with a valid index whose value is not NULL: when
  the text of the value (read as a C string) makes \<open>std::stoi\<close>, \<open>std::stoll\<close> or
  \<open>std::stod\<close> throw, \<open>getInt\<close>, \<open>getLong\<close> or \<open>getDouble\<close> hands one warning to
  the logger and returns zero; the exception does not reach the caller.
\<close>

theorem unparsable_number_degrades:
  assumes "attached qr0 w0 p" and "next_row qr0 w0 = (True, qr, w)"
    and "index < getFieldCount qr"
    and "res_data (results w0 p) ! res_cursor (results w0 p) ! index = Some bytes"
  shows "(\<forall>e. stoi (c_str bytes) = Inl e \<longrightarrow>
            getInt index qr v =
              (Returns 0,
               LOG_WARNING (''Failed to convert '' @ [CHR 0x27] @ c_str bytes @ [CHR 0x27] @
                            '' to int: '' @ what e) v)) \<and>
         (\<forall>e. stoll (c_str bytes) = Inl e \<longrightarrow>
            getLong index qr v =
              (Returns 0,
               LOG_WARNING (''Failed to convert '' @ [CHR 0x27] @ c_str bytes @ [CHR 0x27] @
                            '' to long long: '' @ what e) v)) \<and>
         (\<forall>e. stod (c_str bytes) = Inl e \<longrightarrow>
            getDouble stod index qr v =
              (Returns 0,
               LOG_WARNING (''Failed to convert '' @ [CHR 0x27] @ c_str bytes @ [CHR 0x27] @
                            '' to double: '' @ what e) v))"
  using current_field [OF assms(1,2,3)] assms(4)
  by (simp add: getInt_def getLong_def getDouble_def safeConvert_int_def
      safeConvert_long_def safeConvert_double_def c_str_c_buffer)

theorem unparsable_number_degrades_witness:
  "getInt 0 second_row second_row_world =
     (Returns 0, LOG_WARNING (''Failed to convert '' @ [CHR 0x27] @ ''abc'' @ [CHR 0x27] @
                              '' to int: stoi'') second_row_world) \<and>
   getLong 0 second_row second_row_world =
     (Returns 0, LOG_WARNING (''Failed to convert '' @ [CHR 0x27] @ ''abc'' @ [CHR 0x27] @
                              '' to long long: stoll'') second_row_world) \<and>
   getDouble failing_stod 0 second_row second_row_world =
     (Returns 0, LOG_WARNING (''Failed to convert '' @ [CHR 0x27] @ ''abc'' @ [CHR 0x27] @
                              '' to double: stod'') second_row_world)"
proof -
  have fc: "0 < getFieldCount second_row"
    using next_row_True(3) [OF first_row_attached second_row_next]
    by (simp add: getFieldCount_def results_first_row_world example_res_def)
  have v: "res_data (results first_row_world 0) ! res_cursor (results first_row_world 0) ! 0
             = Some ''abc''"
    by (simp add: results_first_row_world example_res_def)
  have cs: "c_str ''abc'' = ''abc''" by (simp add: c_str_def NUL_def)
  show ?thesis
    using unparsable_number_degrades [OF first_row_attached second_row_next fc v,
        where stod = failing_stod and v = second_row_world] stoi_abc stoll_abc
    by (simp add: cs failing_stod_def)
qed

text \<open>
  Claim C10. For a QueryResult with a current row and a valid index whose field is not
  NULL, \<open>getString(index)\<close> returns exactly the bytes of the field: as many as the
  entry of the lengths array that \<open>next()\<close> fetched says, zero bytes inside the value
  included.
\<close>

theorem getString_keeps_every_byte:
  assumes "attached qr0 w0 p" and "next_row qr0 w0 = (True, qr, w)"
    and "index < getFieldCount qr"
    and "res_data (results w0 p) ! res_cursor (results w0 p) ! index = Some bytes"
  shows "lengths_at qr index = Some (length bytes) \<and>
         getString index qr v = (Returns bytes, v)"
  using current_field [OF assms(1,2,3)] assms(4)
  by (simp add: getString_def field_length_def c_buffer_def)

theorem getString_keeps_every_byte_witness:
  "lengths_at first_row 1 = Some 3 \<and>
   getString 1 first_row first_row_world =
     (Returns [CHR ''a'', CHR 0x00, CHR ''b''], first_row_world)"
proof -
  have fc: "1 < getFieldCount first_row"
    using next_row_True(3) [OF example_attached first_row_next]
    by (simp add: getFieldCount_def results_example_qr_world example_res_def)
  have v: "res_data (results example_qr_world 0) ! res_cursor (results example_qr_world 0) ! 1
             = Some [CHR ''a'', CHR 0x00, CHR ''b'']"
    by (simp add: results_example_qr_world example_res_def NUL_def)
  show ?thesis
    using getString_keeps_every_byte [OF example_attached first_row_next fc v,
        where v = first_row_world]
    by simp
qed

text \<open>
  Claim C1 says that an accessor by index raises an out-of-range failure to its caller
  for an index outside the columns, and a no-current-row failure for a valid index
  before \<open>next()\<close>. The code, on the cursor over \<open>example_res\<close>: with the first row
  current and index 3 (there are three columns), each of the five accessors catches the
  exception of \<open>checkIndex\<close> itself, prints its text and runs off its end without a
  \<open>return\<close>; before the first \<open>next()\<close> and with index 0, \<open>getInt\<close>, \<open>getLong\<close>,
  \<open>getDouble\<close> and \<open>isNull\<close> do the same with the exception of \<open>checkRow\<close>, and
  only \<open>getString\<close>, which tests the row before its \<open>try\<close>, throws to the caller.
\<close>

theorem accessor_failures_swallowed:
  "getInt 3 first_row first_row_world =
     (Undefined, cerr ''Field index out of range: 3, max = 2'' first_row_world) \<and>
   getLong 3 first_row first_row_world =
     (Undefined, cerr ''Field index out of range: 3, max = 2'' first_row_world) \<and>
   (\<forall>stod. getDouble stod 3 first_row first_row_world =
     (Undefined, cerr ''Field index out of range: 3, max = 2'' first_row_world)) \<and>
   isNull 3 first_row first_row_world =
     (Undefined, cerr ''Field index out of range: 3, max = 2'' first_row_world) \<and>
   getString 3 first_row first_row_world =
     (Undefined, cerr ''Field index out of range: 3, max = 2'' first_row_world) \<and>
   getInt 0 example_qr example_qr_world =
     (Undefined, cerr ''No currentRow available, call next() first.'' example_qr_world) \<and>
   getLong 0 example_qr example_qr_world =
     (Undefined, cerr ''No currentRow available, call next() first.'' example_qr_world) \<and>
   (\<forall>stod. getDouble stod 0 example_qr example_qr_world =
     (Undefined, cerr ''No currentRow available, call next() first.'' example_qr_world)) \<and>
   isNull 0 example_qr example_qr_world =
     (Undefined, cerr ''No currentRow available, call next() first.'' example_qr_world) \<and>
   getString 0 example_qr example_qr_world =
     (Throws (runtime_error ''Please invoke next() before getString()''), example_qr_world)"
  by (simp add: first_row_eq example_qr_eq getInt_def getLong_def getDouble_def isNull_def
      getString_def checkIndex_def checkRow_def to_string_digit digit_char_def uint_minus_def)

section \<open>Connection: the invariant and the examples\<close>

lemma ctor_example:
  "fst (Connection_ctor ''localhost'' ''admin'' ''123456'' ''testdb'' 3306 example_world) =
     Returns fresh_connection"
  by (simp add: Connection_ctor_def init_def generateRandomString_def currentTimeMillis_def
      mysql_init_def mysql_options_def answer_def Let_def example_world_def LOG_INFO_def
      LOG_WARNING_def LOG_def fresh_connection_def)

lemma init_handle_inv: "init c w = (Returns c', w') \<Longrightarrow> \<not> m_connected c \<Longrightarrow> handle_inv c'"
  by (auto simp: init_def Let_def handle_inv_def split: prod.splits option.splits)

lemma ctor_handle_inv:
  "Connection_ctor host user password database port w = (Returns c, w') \<Longrightarrow> handle_inv c"
  by (auto simp: Connection_ctor_def Let_def split: prod.splits dest!: init_handle_inv)

text \<open>\<open>isValid()\<close> and \<open>getLastError()\<close> write no field but \<open>m_lastActiveTime\<close>.\<close>

lemma isValid_getLastError_frame:
  "(isValid d c w = Some (b, c', w') \<longrightarrow> c' = c\<lparr>m_lastActiveTime := m_lastActiveTime c'\<rparr>)"
  "(getLastError d c w = Some (e, c', w') \<longrightarrow> c' = c\<lparr>m_lastActiveTime := m_lastActiveTime c'\<rparr>)"
proof (induction d c w and d c w arbitrary: b c' w' and e c' w'
    rule: isValid_getLastError.induct)
  case (1 c w)
  then show ?case by simp
next
  case (2 depth c w)
  then show ?case
    by (auto simp: Let_def updateLastActiveTime_def currentTimeMillis_def
        split: option.splits prod.splits if_splits)
next
  case (3 c w)
  then show ?case by simp
next
  case (4 depth c w)
  then show ?case by (auto split: option.splits prod.splits if_splits)
qed

lemma getLastError_same:
  assumes "getLastError d c w = Some (e, c', w')"
  shows "m_mysql c' = m_mysql c" and "m_connected c' = m_connected c"
proof -
  have f: "c' = c\<lparr>m_lastActiveTime := m_lastActiveTime c'\<rparr>"
    using isValid_getLastError_frame(2) assms by blast
  show "m_mysql c' = m_mysql c" by (subst f) simp
  show "m_connected c' = m_connected c" by (subst f) simp
qed

lemma isValid_same:
  assumes "isValid d c w = Some (b, c', w')"
  shows "m_mysql c' = m_mysql c" and "m_connected c' = m_connected c"
proof -
  have f: "c' = c\<lparr>m_lastActiveTime := m_lastActiveTime c'\<rparr>"
    using isValid_getLastError_frame(1) assms by blast
  show "m_mysql c' = m_mysql c" by (subst f) simp
  show "m_connected c' = m_connected c" by (subst f) simp
qed

lemma isValid_handle_inv:
  "isValid d c w = Some (b, c', w') \<Longrightarrow> handle_inv c \<Longrightarrow> handle_inv c'"
  by (simp add: handle_inv_def isValid_same)

lemma getLastError_handle_inv:
  "getLastError d c w = Some (e, c', w') \<Longrightarrow> handle_inv c \<Longrightarrow> handle_inv c'"
  by (simp add: handle_inv_def getLastError_same)

lemma getLastErrorCode_handle_inv:
  "getLastErrorCode d c w = Some (e, c', w') \<Longrightarrow> handle_inv c \<Longrightarrow> handle_inv c'"
  by (auto simp: getLastErrorCode_def split: option.splits if_splits dest: isValid_handle_inv)

lemma connect_handle_inv:
  "connect d c w = Some (b, c', w') \<Longrightarrow> handle_inv c \<Longrightarrow> handle_inv c'"
  by (auto simp: connect_def Let_def updateLastActiveTime_def currentTimeMillis_def
      handle_inv_def getLastError_same split: option.splits prod.splits if_splits)

lemma connect_True_connected: "connect d c w = Some (True, c', w') \<Longrightarrow> m_connected c'"
  by (auto simp: connect_def Let_def updateLastActiveTime_def currentTimeMillis_def
      split: option.splits prod.splits if_splits)

lemma close_handle_inv: "close c w = (c', w') \<Longrightarrow> handle_inv c \<Longrightarrow> handle_inv c'"
  by (auto simp: close_def handle_inv_def split: option.splits)

lemma beginTransaction_handle_inv:
  "beginTransaction d c w = Some (b, c', w') \<Longrightarrow> handle_inv c \<Longrightarrow> handle_inv c'"
  by (auto simp: beginTransaction_def Let_def updateLastActiveTime_def currentTimeMillis_def
      handle_inv_def getLastError_same split: option.splits prod.splits if_splits)

lemma commit_handle_inv:
  "commit d c w = Some (b, c', w') \<Longrightarrow> handle_inv c \<Longrightarrow> handle_inv c'"
  by (auto simp: commit_def Let_def updateLastActiveTime_def currentTimeMillis_def
      handle_inv_def getLastError_same split: option.splits prod.splits if_splits)

lemma rollback_handle_inv:
  "rollback d c w = Some (b, c', w') \<Longrightarrow> handle_inv c \<Longrightarrow> handle_inv c'"
  by (auto simp: rollback_def Let_def updateLastActiveTime_def currentTimeMillis_def
      handle_inv_def getLastError_same split: option.splits prod.splits if_splits)

text \<open>The liveness check on a connected connection whose probe succeeds.\<close>

lemma isValid_probe_ok:
  assumes "m_mysql c = Some h" and "m_connected c"
    and "fst (driver w (calls w @ [Ping h])) = 0"
  shows "isValid (Suc d) c w =
           Some (True, c\<lparr>m_lastActiveTime := clock w (reads w)\<rparr>,
                 snd (currentTimeMillis (snd (mysql_ping h w))))"
  using assms
  by (simp add: mysql_ping_def on_handle_def answer_def Let_def updateLastActiveTime_def
      currentTimeMillis_def)

text \<open>
  When the probe fails and keeps failing, \<open>isValid()\<close> and \<open>getLastError()\<close> call each
  other without end: no bound on the nesting is enough for either to return, and so
  none is enough for a transaction method whose statement was refused.
\<close>

lemma dead_probe_never_returns:
  assumes "m_mysql c = Some h" and "m_connected c"
  shows "(\<forall>hist. fst (driver w hist) \<noteq> 0) \<Longrightarrow>
         isValid d c w = None \<and> getLastError d c w = None"
proof (induction d arbitrary: w)
  case 0
  then show ?case by simp
next
  case (Suc d)
  let ?w1 = "snd (mysql_ping h w)"
  have p: "fst (mysql_ping h w) \<noteq> 0"
    using Suc.prems by (simp add: mysql_ping_def on_handle_def answer_def Let_def)
  have "driver ?w1 = driver w"
    by (simp add: mysql_ping_def on_handle_def answer_def Let_def)
  with Suc.prems have "\<forall>hist. fst (driver ?w1 hist) \<noteq> 0" by simp
  then have "getLastError d c ?w1 = None" using Suc.IH by blast
  with p assms have "isValid (Suc d) c w = None"
    by (simp add: split_beta)
  moreover have "getLastError (Suc d) c w = None"
    using Suc.IH [OF Suc.prems] by simp
  ultimately show ?case by simp
qed

lemma refused_statement_never_returns:
  assumes "m_mysql c = Some h" and "m_connected c"
    and "\<forall>hist. fst (driver w hist) \<noteq> 0"
  shows "beginTransaction d c w = None" and "commit d c w = None" and "rollback d c w = None"
proof -
  have q: "fst (mysql_query h sql (LOG_DEBUG msg w)) \<noteq> 0" for sql msg
    using assms(3)
    by (simp add: mysql_query_def on_handle_def answer_def Let_def LOG_DEBUG_def LOG_def)
  have "\<forall>hist. fst (driver (snd (mysql_query h sql (LOG_DEBUG msg w))) hist) \<noteq> 0" for sql msg
    using assms(3)
    by (simp add: mysql_query_def on_handle_def answer_def Let_def LOG_DEBUG_def LOG_def)
  then have g: "getLastError d c (snd (mysql_query h sql (LOG_DEBUG msg w))) = None" for sql msg
    using dead_probe_never_returns [OF assms(1,2)] by blast
  show "beginTransaction d c w = None"
    using assms(1,2) q g by (simp add: beginTransaction_def Let_def split_beta)
  show "commit d c w = None"
    using assms(1,2) q g by (simp add: commit_def Let_def split_beta)
  show "rollback d c w = None"
    using assms(1,2) q g by (simp add: rollback_def Let_def split_beta)
qed

lemma connect_example:
  "connect 0 fresh_connection example_world =
     Some (True, connected_connection,
           example_world\<lparr>reads := 1,
             calls := [RealConnect 0 ''localhost'' ''admin'' ''123456'' ''testdb'' 3306],
             logged := [(INFO, ''Connecting to MySQL server [AAAAAAAAAAAAAAAA]''),
                        (INFO, ''Successfully to connect to MySQL Server: [AAAAAAAAAAAAAAAA]'')]\<rparr>)"
  by (simp add: connect_def fresh_connection_def connected_connection_def example_world_def
      mysql_real_connect_def on_handle_def answer_def Let_def updateLastActiveTime_def
      currentTimeMillis_def LOG_INFO_def LOG_def fun_upd_idem)

lemma close_times_closed:
  "m_mysql c = None \<Longrightarrow>
   fst (close_times k c w) = c \<and> calls (snd (close_times k c w)) = calls w"
  by (induction k arbitrary: w) (simp_all add: close_def LOG_INFO_def LOG_def)

lemmas run_defs = fresh_connection_def refusing_world_def example_world_def
  mysql_real_connect_def mysql_query_def on_handle_def answer_def Let_def
  LOG_INFO_def LOG_WARNING_def LOG_ERROR_def LOG_DEBUG_def LOG_def mysql_error_def

section \<open>Connection: the claims\<close>

text \<open>
  Claim C6. \<open>connect()\<close> is idempotent: on a Connection that is already connected
  (which every successful \<open>connect()\<close> leaves, lemma \<open>connect_True_connected\<close>) a
  further call returns true without any call into the client library, so without a
  second handshake, and leaves the object as it was; \<open>lastActiveTime\<close> after it is
  therefore not older than before. The call hands one warning to the logger.
\<close>

theorem connect_is_idempotent:
  assumes "m_connected c"
  shows "\<exists>c' w'. connect d c w = Some (True, c', w') \<and> c' = c \<and>
           m_lastActiveTime c \<le> m_lastActiveTime c' \<and> calls w' = calls w \<and>
           logged w' =
             logged w @ [(WARNING, ''connection to MySQL Server has established ['' @
                                   m_connectionId c @ '']'')]"
  using assms by (simp add: connect_def LOG_WARNING_def LOG_def)

theorem connect_is_idempotent_witness:
  "map_option (\<lambda>(b, c, w). (b, c, calls w)) (connect 0 connected_connection later_world) =
     Some (True, connected_connection, [])"
proof -
  have k: "m_connected connected_connection"
    using connect_example by (rule connect_True_connected)
  from connect_is_idempotent [OF k, of 0 later_world] obtain w' where
    "connect 0 connected_connection later_world = Some (True, connected_connection, w')"
    "calls w' = calls later_world"
    by blast
  then show ?thesis by (simp add: later_world_def example_world_def)
qed

text \<open>
  Claim C7. \<open>close()\<close> is idempotent and can be called any number of times, also on a
  Connection that was never connected. After one or more calls in a row the handle
  reference is empty and \<open>connected\<close> is false; the object is what the first call
  left; and of all the calls only the first one on an allocated handle reached the
  client library, with the one \<open>mysql_close\<close> that releases the handle. The method
  has no failing outcome.
\<close>

theorem close_is_idempotent:
  assumes "handle_inv c"
  shows "m_mysql (fst (close_times (Suc k) c w)) = None \<and>
         \<not> m_connected (fst (close_times (Suc k) c w)) \<and>
         fst (close_times (Suc k) c w) = fst (close c w) \<and>
         calls (snd (close_times (Suc k) c w)) =
           calls w @ (case m_mysql c of None \<Rightarrow> [] | Some h \<Rightarrow> [Close h])"
proof (cases "m_mysql c")
  case None
  with assms have "\<not> m_connected c" by (simp add: handle_inv_def)
  with None close_times_closed [OF None, of "Suc k" w] close_times_closed [OF None, of "Suc 0" w]
  show ?thesis by (simp del: close_times.simps) (simp add: close_def)
next
  case (Some h)
  let ?c1 = "c\<lparr>m_mysql := None, m_connected := False\<rparr>"
  let ?w1 = "LOG_INFO (''MySQL Connection closed ['' @ m_connectionId c @ '']'') (mysql_close h w)"
  have c1: "close c w = (?c1, ?w1)" using Some by (simp add: close_def)
  have n: "m_mysql ?c1 = None" by simp
  have "calls ?w1 = calls w @ [Close h]"
    by (simp add: LOG_INFO_def LOG_def mysql_close_def answer_def Let_def)
  with close_times_closed [OF n, of k ?w1] Some c1 show ?thesis by simp
qed

theorem close_is_idempotent_witness:
  "m_mysql (fst (close_times (Suc 2) connected_connection example_world)) = None \<and>
   \<not> m_connected (fst (close_times (Suc 2) connected_connection example_world)) \<and>
   calls (snd (close_times (Suc 2) connected_connection example_world)) = [Close 0] \<and>
   m_mysql (fst (close_times (Suc 0) (fresh_connection\<lparr>m_mysql := None\<rparr>) example_world)) = None \<and>
   calls (snd (close_times (Suc 0) (fresh_connection\<lparr>m_mysql := None\<rparr>) example_world)) = []"
proof -
  have i: "handle_inv connected_connection"
    by (simp add: handle_inv_def connected_connection_def fresh_connection_def)
  have j: "handle_inv (fresh_connection\<lparr>m_mysql := None\<rparr>)"
    by (simp add: handle_inv_def fresh_connection_def)
  have h: "m_mysql connected_connection = Some 0"
    by (simp add: connected_connection_def fresh_connection_def)
  have e: "calls example_world = []" by (simp add: example_world_def)
  note a = close_is_idempotent [OF i, of 2 example_world]
  note b = close_is_idempotent [OF j, of 0 example_world]
  show ?thesis
    using a [THEN conjunct1] a [THEN conjunct2, THEN conjunct1]
      a [THEN conjunct2, THEN conjunct2, THEN conjunct2]
      b [THEN conjunct1] b [THEN conjunct2, THEN conjunct2, THEN conjunct2]
    by (simp add: h e del: close_times.simps)
qed

text \<open>
  Claim C9. On a connected Connection whose liveness probe succeeds,
  \<open>getLastError()\<close> and \<open>getLastErrorCode()\<close> return (with room for two, respectively
  one, nested calls) the library's error text and number for the handle, and as a side
  effect set \<open>m_lastActiveTime\<close> to the clock reading taken by the liveness check;
  every other field of the Connection is as before.
\<close>

theorem error_getters_refresh_lastActiveTime:
  assumes "m_mysql c = Some h" and "m_connected c"
    and "fst (driver w (calls w @ [Ping h])) = 0"
  shows "\<exists>w'. getLastError (Suc (Suc d)) c w =
                 Some (mysql_error (Some h) w',
                       c\<lparr>m_lastActiveTime := clock w (reads w)\<rparr>, w') \<and>
              getLastErrorCode (Suc d) c w =
                 Some (mysql_errno (Some h) w',
                       c\<lparr>m_lastActiveTime := clock w (reads w)\<rparr>, w')"
proof -
  let ?w' = "snd (currentTimeMillis (snd (mysql_ping h w)))"
  have v: "isValid (Suc d) c w = Some (True, c\<lparr>m_lastActiveTime := clock w (reads w)\<rparr>, ?w')"
    by (rule isValid_probe_ok [OF assms])
  have "getLastError (Suc (Suc d)) c w =
          Some (mysql_error (Some h) ?w', c\<lparr>m_lastActiveTime := clock w (reads w)\<rparr>, ?w')"
    using assms(1) by (simp add: v del: isValid.simps)
  moreover have "getLastErrorCode (Suc d) c w =
          Some (mysql_errno (Some h) ?w', c\<lparr>m_lastActiveTime := clock w (reads w)\<rparr>, ?w')"
    using assms(1) by (simp add: getLastErrorCode_def v del: isValid.simps)
  ultimately show ?thesis by blast
qed

theorem error_getters_refresh_lastActiveTime_witness:
  "map_option (\<lambda>(e, c, w). c) (getLastError (Suc (Suc 0)) connected_connection later_world) =
     Some (connected_connection\<lparr>m_lastActiveTime := 1007\<rparr>) \<and>
   map_option (\<lambda>(e, c, w). c) (getLastErrorCode (Suc 0) connected_connection later_world) =
     Some (connected_connection\<lparr>m_lastActiveTime := 1007\<rparr>)"
proof -
  have h: "m_mysql connected_connection = Some 0"
    by (simp add: connected_connection_def fresh_connection_def)
  have k: "m_connected connected_connection" by (simp add: connected_connection_def)
  have p: "fst (driver later_world (calls later_world @ [Ping 0])) = 0"
    by (simp add: later_world_def example_world_def)
  have t: "clock later_world (reads later_world) = 1007"
    by (simp add: later_world_def example_world_def)
  from error_getters_refresh_lastActiveTime [OF h k p, of 0] obtain w' where
    a: "getLastError (Suc (Suc 0)) connected_connection later_world =
       Some (mysql_error (Some 0) w',
             connected_connection\<lparr>m_lastActiveTime := clock later_world (reads later_world)\<rparr>,
             w')"
    and b: "getLastErrorCode (Suc 0) connected_connection later_world =
       Some (mysql_errno (Some 0) w',
             connected_connection\<lparr>m_lastActiveTime := clock later_world (reads later_world)\<rparr>,
             w')"
    by blast
  show ?thesis unfolding a b t by simp
qed

text \<open>
  Claim C2 says that each of \<open>beginTransaction()\<close>, \<open>commit()\<close> and \<open>rollback()\<close>,
  called without a handle or without a connection, logs, returns false and submits
  nothing to the driver. The code, on the constructed but never connected
  \<open>fresh_connection\<close> and a driver that refuses every call: \<open>beginTransaction\<close> and
  \<open>commit\<close> log one error, return false and make no call into the library;
  \<open>rollback\<close> logs the error of its guard and goes on: it submits \<open>ROLLBACK\<close> to the
  driver, asks for the last error and returns false only because the driver refused.
  With the handle missing, \<open>rollback\<close> passes the null handle to \<open>mysql_query\<close>.
\<close>

theorem rollback_runs_past_its_guard:
  "map_option (\<lambda>(r, c, w). (r, c, calls w, logged w))
     (rollback (Suc (Suc 0)) fresh_connection refusing_world) =
   Some (Returns False, fresh_connection, [Query 0 ''ROLLBACK''],
         [(ERROR, ''Connection not eatablished [AAAAAAAAAAAAAAAA]''),
          (DEBUG, ''roll back transaction [AAAAAAAAAAAAAAAA]''),
          (WARNING, ''Please connect to MySQL Server [AAAAAAAAAAAAAAAA]''),
          (ERROR, ''Failed to rollback [AAAAAAAAAAAAAAAA]: MySQL connection not established!'')]) \<and>
   map_option (\<lambda>(r, c, w). (r, c, calls w, logged w))
     (beginTransaction (Suc (Suc 0)) fresh_connection refusing_world) =
   Some (False, fresh_connection, [],
         [(ERROR, ''Connection not established [AAAAAAAAAAAAAAAA]'')]) \<and>
   map_option (\<lambda>(r, c, w). (r, c, calls w, logged w))
     (commit (Suc (Suc 0)) fresh_connection refusing_world) =
   Some (False, fresh_connection, [],
         [(ERROR, ''Connection not established! [AAAAAAAAAAAAAAAA]'')]) \<and>
   map_option (\<lambda>(r, c, w). (r, calls w))
     (rollback (Suc (Suc 0)) (fresh_connection\<lparr>m_mysql := None\<rparr>) refusing_world) =
   Some (Undefined, [])"
  by (simp add: rollback_def beginTransaction_def commit_def run_defs)

text \<open>
  Claim C3 says that \<open>connect()\<close> on an allocated, not yet connected handle whose
  handshake fails logs the driver's last error text for that handle and returns false.
  The code, on \<open>fresh_connection\<close> and a driver that refuses the handshake with the
  text \<open>Connection refused\<close>: \<open>connect\<close> returns false without throwing, but the
  text it logs is the one \<open>getLastError()\<close> gives for a connection that is not
  connected, since \<open>m_connected\<close> is still false when \<open>connect\<close> asks; the driver's
  text stays unread in the handle.
\<close>

theorem failed_handshake_logs_the_sentinel:
  "map_option (\<lambda>(b, c, w). (b, c, logged w, mysql_error (m_mysql c) w))
     (connect (Suc (Suc 0)) fresh_connection refusing_world) =
   Some (False, fresh_connection,
         [(INFO, ''Connecting to MySQL server [AAAAAAAAAAAAAAAA]''),
          (WARNING, ''Please connect to MySQL Server [AAAAAAAAAAAAAAAA]''),
          (ERROR, ''Failed to connect to MySQL Server: [AAAAAAAAAAAAAAAA]: MySQL connection not established!'')],
         ''Connection refused'')"
  by (simp add: connect_def run_defs)

end
